theory Spec2Isabelle
  imports Main
begin

section \<open>The Dgraph adapter (packages/adapter-dgraph/src/index.ts)\<close>

text \<open>
  The adapter maps each persistence operation of the authentication framework onto one
  GraphQL request (three for \<open>deleteUser\<close>) that it hands to a transport client, and
  reshapes the parsed JSON answer. The embedding follows the TypeScript source method by
  method. The transport client (\<open>./lib/client.js\<close>) and the default fragments
  (\<open>./lib/graphql/fragments.js\<close>) are imported by the source from files that are not
  part of it here: both are parameters of the model.
\<close>

subsection \<open>JavaScript values\<close>

text \<open>
  What the transport returns is parsed JSON: null, booleans, numbers, strings, arrays and
  objects. \<open>JUndefined\<close> is what JavaScript yields for a missing property or element.
  An object is the list of its own properties in insertion order. Numbers are integers
  here: the adapter never computes with a number of a response.
\<close>

datatype jsval =
    JUndefined
  | JNull
  | JBool bool
  | JNum int
  | JStr string
  | JArr "jsval list"
  | JObj "(string \<times> jsval) list"

type_synonym obj = "(string \<times> jsval) list"

text \<open>\<open>!v\<close> is \<open>\<not> truthy v\<close>.\<close>

fun truthy :: "jsval \<Rightarrow> bool" where
  "truthy JUndefined = False"
| "truthy JNull = False"
| "truthy (JBool b) = b"
| "truthy (JNum n) = (n \<noteq> 0)"
| "truthy (JStr s) = (s \<noteq> [])"
| "truthy (JArr xs) = True"
| "truthy (JObj fs) = True"

text \<open>
  What the adapter itself throws is \<open>Error\<close> with its message; \<open>TypeError\<close> is what
  JavaScript throws on reading a property of null or undefined, or on calling what is
  not a function; \<open>Rejected\<close> is an error thrown by the transport, which the adapter
  never catches. \<open>Unmodelled\<close> is not an error of the program: it marks the one kind of
  input on which the model does not follow JavaScript (see \<open>length_gt0\<close>).
\<close>

datatype 'e error = Error string | TypeError | Rejected 'e | Unmodelled

text \<open>
  Reading an own property of an object: \<open>JUndefined\<close> when the object has none of that
  name. The property names of the source (\<open>user\<close>, \<open>account\<close>, \<open>session\<close>,
  \<open>verificationToken\<close>, \<open>getSessionAndUser\<close>, \<open>accounts\<close>, \<open>sessions\<close>, \<open>id\<close>,
  \<open>sessionToken\<close>, \<open>userId\<close>, \<open>expires\<close>) are not built-in properties of strings,
  numbers, booleans or arrays, so reading one of them from such a value gives undefined.
\<close>

definition lookup :: "obj \<Rightarrow> string \<Rightarrow> jsval" where
  "lookup fs k = (case map_of fs k of None \<Rightarrow> JUndefined | Some v \<Rightarrow> v)"

text \<open>\<open>v?.k\<close>\<close>

fun get_opt :: "jsval \<Rightarrow> string \<Rightarrow> jsval" where
  "get_opt (JObj fs) k = lookup fs k"
| "get_opt v k = JUndefined"

text \<open>\<open>v.k\<close>\<close>

fun get :: "jsval \<Rightarrow> string \<Rightarrow> 'e error + jsval" where
  "get JUndefined k = Inl TypeError"
| "get JNull k = Inl TypeError"
| "get v k = Inr (get_opt v k)"

text \<open>\<open>v?.[0]\<close>: the first element of an array, the first character of a string, the
  property named \<open>0\<close> of an object.\<close>

fun at0_opt :: "jsval \<Rightarrow> jsval" where
  "at0_opt (JArr xs) = (case xs of [] \<Rightarrow> JUndefined | x # _ \<Rightarrow> x)"
| "at0_opt (JStr s) = (case s of [] \<Rightarrow> JUndefined | c # _ \<Rightarrow> JStr [c])"
| "at0_opt (JObj fs) = lookup fs ''0''"
| "at0_opt v = JUndefined"

text \<open>\<open>v[0]\<close>\<close>

fun at0 :: "jsval \<Rightarrow> 'e error + jsval" where
  "at0 JUndefined = Inl TypeError"
| "at0 JNull = Inl TypeError"
| "at0 v = Inr (at0_opt v)"

text \<open>\<open>v || null\<close>\<close>

definition or_null :: "jsval \<Rightarrow> jsval" where
  "or_null v = (if truthy v then v else JNull)"

text \<open>\<open>const { k1, k2, ...rest } = o\<close>: the rest object keeps the other properties.\<close>

definition without :: "string list \<Rightarrow> obj \<Rightarrow> obj" where
  "without ks fs = filter (\<lambda>(k, v). k \<notin> set ks) fs"

text \<open>\<open>{ ...o, k: v }\<close>: an existing property \<open>k\<close> keeps its place and takes the new
  value, a new one is added last.\<close>

fun with_property :: "obj \<Rightarrow> string \<Rightarrow> jsval \<Rightarrow> obj" where
  "with_property [] k v = [(k, v)]"
| "with_property ((k', v') # fs) k v =
     (if k' = k then (k, v) # fs else (k', v') # with_property fs k v)"

subsection \<open>Fragments\<close>

text \<open>
  \<open>DgraphAdapterOptions.fragments\<close> has the optional keys \<open>User\<close>, \<open>Account\<close>,
  \<open>Session\<close>, \<open>VerificationToken\<close>, each of type \<open>string | undefined\<close>. The object is the
  list of its own properties: a key can be absent, or present with a string or with
  undefined.
\<close>

datatype entity = User | Account | Session | VerificationToken

datatype fragment = Text string | Undefined

record options =
  fragments_option :: "(entity \<times> fragment) list option"

text \<open>
  \<open>const fragments = { ...defaultFragments, ...options?.fragments }\<close>: every own property
  of \<open>options.fragments\<close> replaces the default of its name, whatever its value; nothing
  is spread when \<open>options\<close> or \<open>options.fragments\<close> is undefined. The module
  \<open>defaultFragments\<close> exports one string for each entity.
\<close>

definition fragments :: "(entity \<Rightarrow> string) \<Rightarrow> options option \<Rightarrow> entity \<Rightarrow> fragment" where
  "fragments defaultFragments opts k =
     (case opts of
        None \<Rightarrow> Text (defaultFragments k)
      | Some os \<Rightarrow>
          (case fragments_option os of
             None \<Rightarrow> Text (defaultFragments k)
           | Some fs \<Rightarrow> (case map_of fs k of None \<Rightarrow> Text (defaultFragments k) | Some v \<Rightarrow> v)))"

text \<open>\<open>${fragments.User}\<close> inside a template literal.\<close>

fun interpolate :: "fragment \<Rightarrow> string" where
  "interpolate (Text s) = s"
| "interpolate Undefined = ''undefined''"

subsection \<open>Requests and the transport\<close>

text \<open>
  Each template literal of the source is one \<open>operation\<close>, named after its root field:
  \<^item> \<open>AddUser\<close>: \<open>mutation { addUser(input: $input) { user {...} } }\<close> (createUser)
  \<^item> \<open>GetUser\<close>: \<open>query { getUser(id: $id) {...} }\<close> (getUser)
  \<^item> \<open>QueryUser\<close>: \<open>query { queryUser(filter: {email: {eq: $email}}) {...} }\<close>
  \<^item> \<open>QueryAccount\<close>: \<open>query { queryAccount(filter: {and: [{providerAccountId: {eq:
    $providerAccountId}}, {provider: {eq: $provider}}]}) { user {...} } }\<close>
  \<^item> \<open>UpdateUser\<close>: \<open>mutation { updateUser(input: {filter: {id: [$id]}, set: $input})
    { user {...} } }\<close>
  \<^item> \<open>GetUserLinks\<close>: \<open>query { getUser(id: $userId) { ...UserFragment accounts { id }
    sessions { sessionToken } } }\<close> (first request of deleteUser)
  \<^item> \<open>DeleteUser\<close>: \<open>mutation { deleteUser(filter: {id: $userId}) { user {...} } }\<close>
  \<^item> \<open>DeleteAccountsAndSessions\<close>: \<open>mutation { deleteAccount(filter: {id: $accountIds})
    { numUids } deleteSession(filter: {sessionToken: $sessionTokens}) { numUids } }\<close>
    (third request of deleteUser)
  \<^item> \<open>AddAccount\<close>: \<open>mutation { addAccount(input: $input) { account {...} } }\<close>
  \<^item> \<open>DeleteAccount\<close>: \<open>mutation { deleteAccount(filter: {and: [{providerAccountId:
    {eq: $providerAccountId}}, {provider: {eq: $provider}}]}) { account {...} } }\<close>
  \<^item> \<open>GetSessionAndUser\<close>: \<open>query { getSessionAndUser(filter: {sessionToken: {eq:
    $sessionToken}}) { session {...} user {...} } }\<close>
  \<^item> \<open>AddSession\<close>: \<open>mutation { addSession(input: $input) { session {...} } }\<close>
  \<^item> \<open>DeleteSession\<close>: \<open>mutation { deleteSession(filter: {sessionToken: {eq:
    $sessionToken}}) { session {...} } }\<close>
  \<^item> \<open>AddVerificationToken\<close>: \<open>mutation { addVerificationToken(input: $input)
    { verificationToken { identifier token expires } } }\<close>
  \<^item> \<open>DeleteVerificationToken\<close>: \<open>mutation { deleteVerificationToken(filter: {and:
    [{token: {eq: $token}}, {identifier: {eq: $identifier}}]}) { verificationToken
    {...} } }\<close>

  A request is the operation, the texts interpolated after it in the order of the
  source, and the variables object.
\<close>

datatype operation =
    AddUser | GetUser | QueryUser | QueryAccount | UpdateUser
  | GetUserLinks | DeleteUser | DeleteAccountsAndSessions
  | AddAccount | DeleteAccount
  | GetSessionAndUser | AddSession | DeleteSession
  | AddVerificationToken | DeleteVerificationToken

record request =
  operation :: operation
  interpolated :: "string list"
  variables :: obj

text \<open>
  The transport \<open>c.run\<close> takes a request in some state of the world behind it and either
  throws (\<open>Inl\<close>) or returns parsed JSON (\<open>Inr\<close>), leaving a new state. The adapter
  sees the world only through it. \<open>calls\<close> records every request the transport receives.
\<close>

type_synonym ('w, 'e) transport = "request \<Rightarrow> 'w \<Rightarrow> ('e + jsval) \<times> 'w"

record 'w client =
  world :: 'w
  calls :: "request list"

type_synonym ('w, 'e, 'a) async = "'w client \<Rightarrow> ('e error + 'a) \<times> 'w client"

definition c_run :: "('w, 'e) transport \<Rightarrow> request \<Rightarrow> ('w, 'e, jsval) async" where
  "c_run run req s =
     (case run req (world s) of
        (Inl e, w') \<Rightarrow> (Inl (Rejected e), \<lparr>world = w', calls = calls s @ [req]\<rparr>)
      | (Inr v, w') \<Rightarrow> (Inr v, \<lparr>world = w', calls = calls s @ [req]\<rparr>))"

text \<open>\<open>const x = await m; ...\<close>: an error of \<open>m\<close> ends the method.\<close>

definition await :: "('w, 'e, 'a) async \<Rightarrow> ('a \<Rightarrow> ('w, 'e, 'b) async) \<Rightarrow> ('w, 'e, 'b) async" where
  "await m f s = (case m s of (Inl e, s') \<Rightarrow> (Inl e, s') | (Inr v, s') \<Rightarrow> f v s')"

text \<open>The same for a step that runs no request.\<close>

definition attempt :: "'e error + 'a \<Rightarrow> ('a \<Rightarrow> ('w, 'e, 'b) async) \<Rightarrow> ('w, 'e, 'b) async" where
  "attempt r f s = (case r of Inl e \<Rightarrow> (Inl e, s) | Inr v \<Rightarrow> f v s)"

definition resolve :: "'a \<Rightarrow> ('w, 'e, 'a) async" where
  "resolve v s = (Inr v, s)"

definition throw :: "'e error \<Rightarrow> ('w, 'e, 'a) async" where
  "throw e s = (Inl e, s)"

subsection \<open>The adapter's methods\<close>

text \<open>
  Every method takes the transport and the resolved \<open>fragments\<close> of the enclosing
  \<open>DgraphAdapter\<close> call. Arguments that the source types as \<open>string\<close> are strings;
  arguments that it destructures or passes on as objects are objects.
\<close>

text \<open>createUser (lines 55-77)\<close>

definition createUser ::
  "('w, 'e) transport \<Rightarrow> (entity \<Rightarrow> fragment) \<Rightarrow> obj \<Rightarrow> ('w, 'e, jsval) async" where
  "createUser run frags user =
     (let userWithoutId = without [''id''] user
      in await (c_run run
           \<lparr>operation = AddUser, interpolated = [interpolate (frags User)],
            variables = [(''input'', JArr [JObj userWithoutId])]\<rparr>)
         (\<lambda>result.
            if \<not> truthy result then throw (Error ''Failed to create user'')
            else attempt (get result ''user'') (\<lambda>users.
              if \<not> truthy users then throw (Error ''Failed to create user'')
              else attempt (at0 users) resolve)))"

text \<open>getUser (lines 79-91)\<close>

definition getUser ::
  "('w, 'e) transport \<Rightarrow> (entity \<Rightarrow> fragment) \<Rightarrow> string \<Rightarrow> ('w, 'e, jsval) async" where
  "getUser run frags id' =
     c_run run
       \<lparr>operation = GetUser, interpolated = [interpolate (frags User)],
        variables = [(''id'', JStr id')]\<rparr>"

text \<open>getUserByEmail (lines 93-106)\<close>

definition getUserByEmail ::
  "('w, 'e) transport \<Rightarrow> (entity \<Rightarrow> fragment) \<Rightarrow> string \<Rightarrow> ('w, 'e, jsval) async" where
  "getUserByEmail run frags email =
     await (c_run run
       \<lparr>operation = QueryUser, interpolated = [interpolate (frags User)],
        variables = [(''email'', JStr email)]\<rparr>)
     (\<lambda>result. resolve (or_null (at0_opt (get_opt result ''user''))))"

text \<open>getUserByAccount (lines 108-136)\<close>

definition getUserByAccount ::
  "('w, 'e) transport \<Rightarrow> (entity \<Rightarrow> fragment) \<Rightarrow> string \<Rightarrow> string \<Rightarrow> ('w, 'e, jsval) async" where
  "getUserByAccount run frags provider providerAccountId =
     await (c_run run
       \<lparr>operation = QueryAccount, interpolated = [interpolate (frags User)],
        variables = [(''providerAccountId'', JStr providerAccountId),
                     (''provider'', JStr provider)]\<rparr>)
     (\<lambda>result. resolve (or_null (get_opt (at0_opt result) ''user'')))"

text \<open>updateUser (lines 138-161)\<close>

definition updateUser ::
  "('w, 'e) transport \<Rightarrow> (entity \<Rightarrow> fragment) \<Rightarrow> obj \<Rightarrow> ('w, 'e, jsval) async" where
  "updateUser run frags user =
     (let id' = lookup user ''id''; update = without [''id''] user
      in await (c_run run
           \<lparr>operation = UpdateUser, interpolated = [interpolate (frags User)],
            variables = [(''id'', id'), (''input'', JObj update)]\<rparr>)
         (\<lambda>result.
            if \<not> truthy (at0_opt (get_opt result ''user''))
            then throw (Error ''Failed to update user'')
            else attempt (get result ''user'') (\<lambda>users. attempt (at0 users) resolve)))"

text \<open>
  deleteUser (lines 163-234). \<open>user.accounts\<close> and \<open>user.sessions\<close> are the only values
  on which the adapter uses \<open>.length\<close>, \<open>>\<close> and \<open>.map\<close>; the call site types both as
  arrays. \<open>v.length > 0\<close> is modelled on an array and on null and undefined (a
  TypeError). On any other value JavaScript compares through its number coercions,
  which the model does not follow: the result is \<open>Unmodelled\<close>.
\<close>

fun length_gt0 :: "jsval \<Rightarrow> 'e error + bool" where
  "length_gt0 JUndefined = Inl TypeError"
| "length_gt0 JNull = Inl TypeError"
| "length_gt0 (JArr xs) = Inr (xs \<noteq> [])"
| "length_gt0 v = Inl Unmodelled"

text \<open>\<open>user.accounts.length > 0 || user.sessions.length > 0\<close>: the right operand is
  evaluated only when the left one is false.\<close>

definition has_links :: "jsval \<Rightarrow> 'e error + bool" where
  "has_links user =
     (case get user ''accounts'' of
        Inl e \<Rightarrow> Inl e
      | Inr accounts \<Rightarrow>
          (case length_gt0 accounts of
             Inl e \<Rightarrow> Inl e
           | Inr True \<Rightarrow> Inr True
           | Inr False \<Rightarrow>
               (case get user ''sessions'' of
                  Inl e \<Rightarrow> Inl e
                | Inr sessions \<Rightarrow> length_gt0 sessions)))"

text \<open>\<open>xs.map((x) => x.k)\<close>: the first element that is null or undefined throws. A value
  that is not an array has no function \<open>map\<close>: calling it throws.\<close>

fun get_each :: "jsval list \<Rightarrow> string \<Rightarrow> 'e error + jsval list" where
  "get_each [] k = Inr []"
| "get_each (x # xs) k =
     (case get x k of
        Inl e \<Rightarrow> Inl e
      | Inr v \<Rightarrow> (case get_each xs k of Inl e \<Rightarrow> Inl e | Inr vs \<Rightarrow> Inr (v # vs)))"

fun map_get :: "jsval \<Rightarrow> string \<Rightarrow> 'e error + jsval" where
  "map_get (JArr xs) k = (case get_each xs k of Inl e \<Rightarrow> Inl e | Inr vs \<Rightarrow> Inr (JArr vs))"
| "map_get v k = Inl TypeError"

definition fetch_request :: "(entity \<Rightarrow> fragment) \<Rightarrow> string \<Rightarrow> request" where
  "fetch_request frags userId =
     \<lparr>operation = GetUserLinks, interpolated = [interpolate (frags User)],
      variables = [(''userId'', JStr userId)]\<rparr>"

definition delete_request :: "(entity \<Rightarrow> fragment) \<Rightarrow> string \<Rightarrow> request" where
  "delete_request frags userId =
     \<lparr>operation = DeleteUser, interpolated = [interpolate (frags User)],
      variables = [(''userId'', JArr [JStr userId])]\<rparr>"

definition cleanup_request :: "jsval \<Rightarrow> jsval \<Rightarrow> request" where
  "cleanup_request accountIds sessionTokens =
     \<lparr>operation = DeleteAccountsAndSessions, interpolated = [],
      variables = [(''accountIds'', accountIds), (''sessionTokens'', sessionTokens)]\<rparr>"

definition deleteUser ::
  "('w, 'e) transport \<Rightarrow> (entity \<Rightarrow> fragment) \<Rightarrow> string \<Rightarrow> ('w, 'e, jsval) async" where
  "deleteUser run frags userId =
     await (c_run run (fetch_request frags userId)) (\<lambda>fetchResult.
       let user = at0_opt (get_opt fetchResult ''user'')
       in if \<not> truthy user then resolve JNull
          else
            await (c_run run (delete_request frags userId)) (\<lambda>deleteResult.
              let deletedUser = at0_opt (get_opt deleteResult ''user'')
              in if \<not> truthy deletedUser then throw (Error ''Failed to delete user'')
                 else
                   attempt (has_links user) (\<lambda>linked.
                     if linked then
                       attempt (get user ''accounts'') (\<lambda>accounts.
                       attempt (map_get accounts ''id'') (\<lambda>accountIds.
                       attempt (get user ''sessions'') (\<lambda>sessions.
                       attempt (map_get sessions ''sessionToken'') (\<lambda>sessionTokens.
                       await (c_run run (cleanup_request accountIds sessionTokens))
                         (\<lambda>_. resolve deletedUser)))))
                     else resolve deletedUser)))"

text \<open>linkAccount (lines 236-257)\<close>

definition linkAccount ::
  "('w, 'e) transport \<Rightarrow> (entity \<Rightarrow> fragment) \<Rightarrow> obj \<Rightarrow> ('w, 'e, jsval) async" where
  "linkAccount run frags account =
     (let userId = lookup account ''userId'';
          inputWithoutId = without [''id'', ''userId''] account
      in await (c_run run
           \<lparr>operation = AddAccount, interpolated = [interpolate (frags Account)],
            variables = [(''input'', JArr [JObj
               (with_property inputWithoutId ''user'' (JObj [(''id'', userId)]))])]\<rparr>)
         (\<lambda>result.
            if \<not> truthy (at0_opt (get_opt result ''account''))
            then throw (Error ''Failed to link account'')
            else attempt (get result ''account'') (\<lambda>accounts. attempt (at0 accounts) resolve)))"

text \<open>unlinkAccount (lines 259-285)\<close>

definition unlinkAccount ::
  "('w, 'e) transport \<Rightarrow> (entity \<Rightarrow> fragment) \<Rightarrow> string \<Rightarrow> string \<Rightarrow> ('w, 'e, jsval) async" where
  "unlinkAccount run frags provider providerAccountId =
     await (c_run run
       \<lparr>operation = DeleteAccount, interpolated = [interpolate (frags Account)],
        variables = [(''providerAccountId'', JStr providerAccountId),
                     (''provider'', JStr provider)]\<rparr>)
     (\<lambda>result. resolve (at0_opt (get_opt result ''account'')))"

text \<open>getSessionAndUser (lines 287-319)\<close>

definition getSessionAndUser ::
  "('w, 'e) transport \<Rightarrow> (entity \<Rightarrow> fragment) \<Rightarrow> string \<Rightarrow> ('w, 'e, jsval) async" where
  "getSessionAndUser run frags sessionToken =
     await (c_run run
       \<lparr>operation = GetSessionAndUser,
        interpolated = [interpolate (frags Session), interpolate (frags User)],
        variables = [(''sessionToken'', JStr sessionToken)]\<rparr>)
     (\<lambda>result.
        let sessionAndUser = at0_opt (get_opt result ''getSessionAndUser'')
        in if \<not> truthy sessionAndUser then resolve JNull
           else attempt (get sessionAndUser ''user'') (\<lambda>u.
             if \<not> truthy u then resolve JNull
             else attempt (get sessionAndUser ''session'') (\<lambda>s.
               if \<not> truthy s then resolve JNull else resolve sessionAndUser)))"

text \<open>createSession (lines 321-349). The argument is destructured into \<open>sessionToken\<close>,
  \<open>userId\<close> and \<open>expires\<close>; \<open>userId === undefined\<close> holds for a missing property
  and for one that is undefined.\<close>

definition createSession ::
  "('w, 'e) transport \<Rightarrow> (entity \<Rightarrow> fragment) \<Rightarrow> obj \<Rightarrow> ('w, 'e, jsval) async" where
  "createSession run frags session =
     (let sessionToken = lookup session ''sessionToken'';
          userId = lookup session ''userId'';
          expires = lookup session ''expires''
      in if userId = JUndefined then throw (Error ''userId is undefined in createSession'')
         else
           await (c_run run
             \<lparr>operation = AddSession, interpolated = [interpolate (frags Session)],
              variables = [(''input'', JArr [JObj [(''sessionToken'', sessionToken),
                 (''expires'', expires), (''user'', JObj [(''id'', userId)])]])]\<rparr>)
           (\<lambda>result.
              if \<not> truthy (at0_opt (get_opt result ''session''))
              then throw (Error ''Failed to create session'')
              else attempt (get result ''session'') (\<lambda>sessions. attempt (at0 sessions) resolve)))"

text \<open>deleteSession (lines 351-369)\<close>

definition deleteSession ::
  "('w, 'e) transport \<Rightarrow> (entity \<Rightarrow> fragment) \<Rightarrow> string \<Rightarrow> ('w, 'e, jsval) async" where
  "deleteSession run frags sessionToken =
     await (c_run run
       \<lparr>operation = DeleteSession, interpolated = [interpolate (frags Session)],
        variables = [(''sessionToken'', JStr sessionToken)]\<rparr>)
     (\<lambda>result. resolve (or_null (at0_opt (get_opt result ''session''))))"

text \<open>createVerificationToken (lines 371-399): the selection is written out in the
  document, no fragment is interpolated.\<close>

definition createVerificationToken ::
  "('w, 'e) transport \<Rightarrow> (entity \<Rightarrow> fragment) \<Rightarrow> obj \<Rightarrow> ('w, 'e, jsval) async" where
  "createVerificationToken run frags input =
     await (c_run run
       \<lparr>operation = AddVerificationToken, interpolated = [],
        variables = [(''input'', JArr [JObj input])]\<rparr>)
     (\<lambda>result.
        let createdToken = at0_opt (get_opt result ''verificationToken'')
        in if \<not> truthy createdToken
           then throw (Error ''Failed to create verification token'')
           else resolve createdToken)"

text \<open>useVerificationToken (lines 401-429): \<open>params\<close> is passed on as the variables.\<close>

definition useVerificationToken ::
  "('w, 'e) transport \<Rightarrow> (entity \<Rightarrow> fragment) \<Rightarrow> obj \<Rightarrow> ('w, 'e, jsval) async" where
  "useVerificationToken run frags params =
     await (c_run run
       \<lparr>operation = DeleteVerificationToken,
        interpolated = [interpolate (frags VerificationToken)],
        variables = params\<rparr>)
     (\<lambda>result. resolve (or_null (at0_opt (get_opt result ''verificationToken''))))"

text \<open>
  \<open>DgraphAdapter(client, options)\<close> (lines 47-52) resolves the fragments once and returns
  the thirteen methods, each closed over the transport and the resolved fragments.
\<close>

record ('w, 'e) adapter =
  adapter_createUser :: "obj \<Rightarrow> ('w, 'e, jsval) async"
  adapter_getUser :: "string \<Rightarrow> ('w, 'e, jsval) async"
  adapter_getUserByEmail :: "string \<Rightarrow> ('w, 'e, jsval) async"
  adapter_getUserByAccount :: "string \<Rightarrow> string \<Rightarrow> ('w, 'e, jsval) async"
  adapter_updateUser :: "obj \<Rightarrow> ('w, 'e, jsval) async"
  adapter_deleteUser :: "string \<Rightarrow> ('w, 'e, jsval) async"
  adapter_linkAccount :: "obj \<Rightarrow> ('w, 'e, jsval) async"
  adapter_unlinkAccount :: "string \<Rightarrow> string \<Rightarrow> ('w, 'e, jsval) async"
  adapter_getSessionAndUser :: "string \<Rightarrow> ('w, 'e, jsval) async"
  adapter_createSession :: "obj \<Rightarrow> ('w, 'e, jsval) async"
  adapter_deleteSession :: "string \<Rightarrow> ('w, 'e, jsval) async"
  adapter_createVerificationToken :: "obj \<Rightarrow> ('w, 'e, jsval) async"
  adapter_useVerificationToken :: "obj \<Rightarrow> ('w, 'e, jsval) async"

definition DgraphAdapter ::
  "('w, 'e) transport \<Rightarrow> (entity \<Rightarrow> string) \<Rightarrow> options option \<Rightarrow> ('w, 'e) adapter" where
  "DgraphAdapter c defaultFragments opts =
     (let frags = fragments defaultFragments opts
      in \<lparr>adapter_createUser = createUser c frags,
          adapter_getUser = getUser c frags,
          adapter_getUserByEmail = getUserByEmail c frags,
          adapter_getUserByAccount = getUserByAccount c frags,
          adapter_updateUser = updateUser c frags,
          adapter_deleteUser = deleteUser c frags,
          adapter_linkAccount = linkAccount c frags,
          adapter_unlinkAccount = unlinkAccount c frags,
          adapter_getSessionAndUser = getSessionAndUser c frags,
          adapter_createSession = createSession c frags,
          adapter_deleteSession = deleteSession c frags,
          adapter_createVerificationToken = createVerificationToken c frags,
          adapter_useVerificationToken = useVerificationToken c frags\<rparr>)"

text \<open>
  The fragments that the template literal of each operation interpolates, in the order
  of the source. The document of \<open>createVerificationToken\<close> and the cleanup document of
  \<open>deleteUser\<close> interpolate none.
\<close>

fun interpolates :: "operation \<Rightarrow> entity list" where
  "interpolates AddUser = [User]"
| "interpolates GetUser = [User]"
| "interpolates QueryUser = [User]"
| "interpolates QueryAccount = [User]"
| "interpolates UpdateUser = [User]"
| "interpolates GetUserLinks = [User]"
| "interpolates DeleteUser = [User]"
| "interpolates DeleteAccountsAndSessions = []"
| "interpolates AddAccount = [Account]"
| "interpolates DeleteAccount = [Account]"
| "interpolates GetSessionAndUser = [Session, User]"
| "interpolates AddSession = [Session]"
| "interpolates DeleteSession = [Session]"
| "interpolates AddVerificationToken = []"
| "interpolates DeleteVerificationToken = [VerificationToken]"

text \<open>A request carries the fragments \<open>frags\<close> when the texts interpolated into its
  document are those of \<open>frags\<close>; \<open>requests_of m w\<close> are the requests that the method
  call \<open>m\<close> makes when it starts in the world \<open>w\<close>.\<close>

definition carried :: "(entity \<Rightarrow> fragment) \<Rightarrow> request \<Rightarrow> bool" where
  "carried frags req \<longleftrightarrow>
     interpolated req = map (\<lambda>k. interpolate (frags k)) (interpolates (operation req))"

definition requests_of :: "('w, 'e, 'a) async \<Rightarrow> 'w \<Rightarrow> request list" where
  "requests_of m w = calls (snd (m \<lparr>world = w, calls = []\<rparr>))"

subsection \<open>The backend behind the transport\<close>

text \<open>
  Modelled from the spec: the records of the backend. The Dgraph server and the
  transport client (\<open>./lib/client.js\<close>) are not in the source. The spec's data model
  gives the records: a User (id, name, email, emailVerified, image) owns Accounts and
  Sessions, which refer back to it; an Account is identified by (provider,
  providerAccountId), a Session by its sessionToken, a VerificationToken by
  (identifier, token). Nothing in the adapter or in the documented schema keeps two
  accounts from holding the same (provider, providerAccountId): the backend admits
  such states.
\<close>

record user_row =
  u_id :: string
  u_name :: jsval
  u_email :: jsval
  u_emailVerified :: jsval
  u_image :: jsval

record account_row =
  a_id :: string
  a_user :: string
  a_provider :: string
  a_providerAccountId :: string

record session_row =
  s_token :: string
  s_user :: string

record token_row =
  t_identifier :: string
  t_token :: string
  t_expires :: string

record backend =
  users :: "user_row list"
  accounts :: "account_row list"
  sessions :: "session_row list"
  verificationTokens :: "token_row list"

definition user_fields :: "user_row \<Rightarrow> obj" where
  "user_fields u =
     [(''id'', JStr (u_id u)), (''name'', u_name u), (''email'', u_email u),
      (''emailVerified'', u_emailVerified u), (''image'', u_image u)]"

definition user_json :: "user_row \<Rightarrow> jsval" where
  "user_json u = JObj (user_fields u)"

definition token_json :: "token_row \<Rightarrow> jsval" where
  "token_json t =
     JObj [(''identifier'', JStr (t_identifier t)), (''token'', JStr (t_token t)),
           (''expires'', JStr (t_expires t))]"

text \<open>The accounts and sessions that refer to a user.\<close>

definition linked_accounts :: "backend \<Rightarrow> string \<Rightarrow> account_row list" where
  "linked_accounts w userId = filter (\<lambda>a. a_user a = userId) (accounts w)"

definition linked_sessions :: "backend \<Rightarrow> string \<Rightarrow> session_row list" where
  "linked_sessions w userId = filter (\<lambda>x. s_user x = userId) (sessions w)"

text \<open>A user with the ids of its accounts and the tokens of its sessions.\<close>

definition user_links_json :: "backend \<Rightarrow> user_row \<Rightarrow> jsval" where
  "user_links_json w u =
     JObj (user_fields u @
       [(''accounts'', JArr (map (\<lambda>a. JObj [(''id'', JStr (a_id a))])
           (linked_accounts w (u_id u)))),
        (''sessions'', JArr (map (\<lambda>x. JObj [(''sessionToken'', JStr (s_token x))])
           (linked_sessions w (u_id u))))])"

text \<open>The owner of an account as the join \<open>queryAccount { user {...} }\<close> returns it: null
  when no such user exists.\<close>

definition owner_json :: "backend \<Rightarrow> account_row \<Rightarrow> jsval" where
  "owner_json w a =
     JObj [(''user'', (case filter (\<lambda>u. u_id u = a_user a) (users w) of
                          [] \<Rightarrow> JNull | u # _ \<Rightarrow> user_json u))]"

definition account_matches :: "obj \<Rightarrow> account_row \<Rightarrow> bool" where
  "account_matches vars a \<longleftrightarrow>
     JStr (a_providerAccountId a) = lookup vars ''providerAccountId''
     \<and> JStr (a_provider a) = lookup vars ''provider''"

definition token_matches :: "obj \<Rightarrow> token_row \<Rightarrow> bool" where
  "token_matches vars t \<longleftrightarrow>
     JStr (t_token t) = lookup vars ''token'' \<and> JStr (t_identifier t) = lookup vars ''identifier''"

text \<open>
  Two documents of the adapter ask for the root field \<open>getUser(id: ...)\<close>: the one of
  getUser, which passes the answer on as the user record, and the first one of
  deleteUser, which reads the user record at \<open>answer.user[0]\<close>. The spec does not say in
  which shape the transport presents the record of that root field, so the shape is a
  parameter of the backend, the same for both documents: the record itself or null
  (\<open>Bare\<close>), or the list of the records found under the name \<open>user\<close> (\<open>Wrapped\<close>).
\<close>

datatype shape = Bare | Wrapped

definition present :: "shape \<Rightarrow> jsval \<Rightarrow> jsval" where
  "present sh v =
     (case sh of
        Bare \<Rightarrow> v
      | Wrapped \<Rightarrow> JObj [(''user'', JArr (if v = JNull then [] else [v]))])"

text \<open>
  Modelled from the spec: the transport client together with the Dgraph server behind
  it. The spec's transport contract is "run a query/mutation with variables, return
  parsed JSON data or throw"; deletions are "filtered delete mutations", and
  useVerificationToken is "delete-and-return-the-deleted-record by composite
  (identifier, token) filter". A query for \<open>getUser(id: ...)\<close> is answered with the
  first user of that id, or null, presented in the shape \<open>sh\<close>, whichever document asks.
  A deletion is answered with the list of the deleted records under the name of the
  entity, and \<open>queryAccount\<close> with the list of the matching accounts, as the only call
  site of each decodes it. Only the operations that the properties of deleteUser and
  useVerificationToken exercise are modelled: the queries and deletions of getUser,
  getUserByAccount, deleteUser and useVerificationToken. The transport throws on the
  others.
\<close>

definition dgraph :: "shape \<Rightarrow> (backend, string) transport" where
  "dgraph sh req w =
     (let vars = variables req
      in case operation req of
        GetUser \<Rightarrow>
          (Inr (present sh
             (case filter (\<lambda>u. JStr (u_id u) = lookup vars ''id'') (users w) of
                [] \<Rightarrow> JNull | u # _ \<Rightarrow> user_json u)), w)
      | GetUserLinks \<Rightarrow>
          (Inr (present sh
             (case filter (\<lambda>u. JStr (u_id u) = lookup vars ''userId'') (users w) of
                [] \<Rightarrow> JNull | u # _ \<Rightarrow> user_links_json w u)), w)
      | DeleteUser \<Rightarrow>
          (case lookup vars ''userId'' of
             JArr ids \<Rightarrow>
               (Inr (JObj [(''user'', JArr (map user_json
                       (filter (\<lambda>u. JStr (u_id u) \<in> set ids) (users w))))]),
                w\<lparr>users := filter (\<lambda>u. JStr (u_id u) \<notin> set ids) (users w)\<rparr>)
           | _ \<Rightarrow> (Inl ''userId is not a list'', w))
      | DeleteAccountsAndSessions \<Rightarrow>
          (case lookup vars ''accountIds'' of
             JArr ids \<Rightarrow>
               (case lookup vars ''sessionTokens'' of
                  JArr tokens \<Rightarrow>
                    (Inr (JObj
                       [(''deleteAccount'', JObj [(''numUids'', JNum (int (length
                           (filter (\<lambda>a. JStr (a_id a) \<in> set ids) (accounts w)))))]),
                        (''deleteSession'', JObj [(''numUids'', JNum (int (length
                           (filter (\<lambda>x. JStr (s_token x) \<in> set tokens) (sessions w)))))])]),
                     w\<lparr>accounts := filter (\<lambda>a. JStr (a_id a) \<notin> set ids) (accounts w),
                       sessions := filter (\<lambda>x. JStr (s_token x) \<notin> set tokens) (sessions w)\<rparr>)
                | _ \<Rightarrow> (Inl ''sessionTokens is not a list'', w))
           | _ \<Rightarrow> (Inl ''accountIds is not a list'', w))
      | QueryAccount \<Rightarrow>
          (Inr (JArr (map (owner_json w) (filter (account_matches vars) (accounts w)))), w)
      | DeleteVerificationToken \<Rightarrow>
          (Inr (JObj [(''verificationToken'', JArr (map token_json
                  (filter (token_matches vars) (verificationTokens w))))]),
           w\<lparr>verificationTokens :=
               filter (\<lambda>t. \<not> token_matches vars t) (verificationTokens w)\<rparr>)
      | _ \<Rightarrow> (Inl ''operation not modelled'', w))"


text \<open>The same backend behind a transport that fails on the cleanup request of
  deleteUser and leaves the backend as it was.\<close>

definition dgraph_cleanup_fails :: "shape \<Rightarrow> (backend, string) transport" where
  "dgraph_cleanup_fails sh req w =
     (if operation req = DeleteAccountsAndSessions then (Inl ''network error'', w)
      else dgraph sh req w)"

text \<open>A transport that answers every request with the same value.\<close>

definition answering :: "jsval \<Rightarrow> (unit, string) transport" where
  "answering v req w = (Inr v, w)"

text \<open>Example data: default fragments, and a backend with two users, of which \<open>u1\<close>
  has two accounts and one session.\<close>

definition example_fragments :: "entity \<Rightarrow> string" where
  "example_fragments k =
     (case k of
        User \<Rightarrow> ''fragment UserFragment on User { id email }''
      | Account \<Rightarrow> ''fragment AccountFragment on Account { id provider }''
      | Session \<Rightarrow> ''fragment SessionFragment on Session { sessionToken expires }''
      | VerificationToken \<Rightarrow>
          ''fragment VerificationTokenFragment on VerificationToken { identifier token }'')"

definition user1 :: user_row where
  "user1 = \<lparr>u_id = ''u1'', u_name = JStr ''Ann'', u_email = JStr ''a@example.org'',
            u_emailVerified = JNull, u_image = JNull\<rparr>"

definition user2 :: user_row where
  "user2 = \<lparr>u_id = ''u2'', u_name = JStr ''Bob'', u_email = JStr ''b@example.org'',
            u_emailVerified = JNull, u_image = JNull\<rparr>"

definition example_backend :: backend where
  "example_backend =
     \<lparr>users = [user1, user2],
      accounts = [\<lparr>a_id = ''a1'', a_user = ''u1'', a_provider = ''github'',
                    a_providerAccountId = ''100''\<rparr>,
                  \<lparr>a_id = ''a2'', a_user = ''u2'', a_provider = ''github'',
                    a_providerAccountId = ''200''\<rparr>,
                  \<lparr>a_id = ''a3'', a_user = ''u1'', a_provider = ''google'',
                    a_providerAccountId = ''100''\<rparr>],
      sessions = [\<lparr>s_token = ''s1'', s_user = ''u1''\<rparr>, \<lparr>s_token = ''s2'', s_user = ''u2''\<rparr>],
      verificationTokens =
        [\<lparr>t_identifier = ''a@example.org'', t_token = ''t1'', t_expires = ''2030-01-01''\<rparr>]\<rparr>"


section \<open>Properties\<close>

subsection \<open>JavaScript values and the steps of a method\<close>

lemmas async_defs = c_run_def await_def attempt_def resolve_def throw_def

lemma lookup_Nil [simp]: "lookup [] k = JUndefined"
  by (simp add: lookup_def)

lemma lookup_Cons [simp]: "lookup ((k, v) # fs) k' = (if k = k' then v else lookup fs k')"
  by (simp add: lookup_def)

lemma get_truthy: "truthy v \<Longrightarrow> get v k = Inr (get_opt v k)"
  by (cases v) auto

lemma at0_truthy: "truthy v \<Longrightarrow> at0 v = Inr (at0_opt v)"
  by (cases v) auto

lemma get_not_nullish: "x \<noteq> JNull \<Longrightarrow> x \<noteq> JUndefined \<Longrightarrow> get x k = Inr (get_opt x k)"
  by (cases x) auto

lemma get_each_objects:
  "\<forall>x\<in>set xs. x \<noteq> JNull \<and> x \<noteq> JUndefined \<Longrightarrow>
   get_each xs k = Inr (map (\<lambda>x. get_opt x k) xs)"
  by (induction xs) (auto simp: get_not_nullish)

lemma has_links_arrays:
  "truthy user \<Longrightarrow> get_opt user ''accounts'' = JArr as \<Longrightarrow> get_opt user ''sessions'' = JArr ss
   \<Longrightarrow> has_links user = Inr (as \<noteq> [] \<or> ss \<noteq> [])"
  by (auto simp: has_links_def get_truthy split: bool.splits)

subsection \<open>createSession without a user id\<close>

text \<open>
  Claim C4. For every argument whose \<open>userId\<close> is undefined, createSession throws
  \<open>Error "userId is undefined in createSession"\<close> and leaves the client as it was: the
  world is untouched and no request is added to the calls the transport has received.
\<close>

theorem createSession_undefined_userId:
  assumes "lookup session ''userId'' = JUndefined"
  shows "createSession run frags session s =
           (Inl (Error ''userId is undefined in createSession''), s)"
  using assms by (simp add: createSession_def throw_def)

theorem createSession_undefined_userId_witness:
  "lookup [(''sessionToken'', JStr ''s9''), (''expires'', JStr ''2030-01-01'')] ''userId''
     = JUndefined
   \<and> createSession (dgraph Bare) (fragments example_fragments None)
       [(''sessionToken'', JStr ''s9''), (''expires'', JStr ''2030-01-01'')]
       \<lparr>world = example_backend, calls = []\<rparr>
     = (Inl (Error ''userId is undefined in createSession''),
        \<lparr>world = example_backend, calls = []\<rparr>)"
proof -
  have h: "lookup [(''sessionToken'', JStr ''s9''), (''expires'', JStr ''2030-01-01'')] ''userId''
             = JUndefined"
    by simp
  from createSession_undefined_userId[OF h, of "dgraph Bare" "fragments example_fragments None"
      "\<lparr>world = example_backend, calls = []\<rparr>"] h
  show ?thesis by simp
qed

subsection \<open>getSessionAndUser\<close>

text \<open>
  Claim C7. getSessionAndUser makes one request, the query \<open>GetSessionAndUser\<close> with the
  session token as its variable. It returns the first element of the answer's
  \<open>getSessionAndUser\<close> list when that element, its \<open>user\<close> and its \<open>session\<close> are all
  present, and null in every other case; it never throws on an answer.
\<close>

theorem getSessionAndUser_result:
  assumes "run \<lparr>operation = GetSessionAndUser,
                 interpolated = [interpolate (frags Session), interpolate (frags User)],
                 variables = [(''sessionToken'', JStr sessionToken)]\<rparr> w = (Inr result, w')"
  shows "getSessionAndUser run frags sessionToken \<lparr>world = w, calls = []\<rparr> =
           (Inr (let sessionAndUser = at0_opt (get_opt result ''getSessionAndUser'')
                 in if truthy sessionAndUser \<and> truthy (get_opt sessionAndUser ''user'')
                         \<and> truthy (get_opt sessionAndUser ''session'')
                    then sessionAndUser else JNull),
            \<lparr>world = w', calls = [\<lparr>operation = GetSessionAndUser,
                 interpolated = [interpolate (frags Session), interpolate (frags User)],
                 variables = [(''sessionToken'', JStr sessionToken)]\<rparr>]\<rparr>)"
  using assms by (simp add: getSessionAndUser_def async_defs Let_def get_truthy)

theorem getSessionAndUser_result_witness:
  "getSessionAndUser
     (answering (JObj [(''getSessionAndUser'', JArr [JObj
        [(''session'', JObj [(''sessionToken'', JStr ''s1'')]),
         (''user'', JObj [(''id'', JStr ''u1'')])]])]))
     (fragments example_fragments None) ''s1'' \<lparr>world = (), calls = []\<rparr>
   = (Inr (JObj [(''session'', JObj [(''sessionToken'', JStr ''s1'')]),
                 (''user'', JObj [(''id'', JStr ''u1'')])]),
      \<lparr>world = (), calls = [\<lparr>operation = GetSessionAndUser,
         interpolated = [example_fragments Session, example_fragments User],
         variables = [(''sessionToken'', JStr ''s1'')]\<rparr>]\<rparr>)
   \<and> fst (getSessionAndUser
       (answering (JObj [(''getSessionAndUser'', JArr [JObj
          [(''session'', JObj [(''sessionToken'', JStr ''s1'')]), (''user'', JNull)]])]))
       (fragments example_fragments None) ''s1'' \<lparr>world = (), calls = []\<rparr>)
     = Inr JNull
   \<and> fst (getSessionAndUser (answering (JObj [(''getSessionAndUser'', JArr [])]))
       (fragments example_fragments None) ''s1'' \<lparr>world = (), calls = []\<rparr>)
     = Inr JNull"
  using getSessionAndUser_result[of "answering (JObj [(''getSessionAndUser'', JArr [JObj
        [(''session'', JObj [(''sessionToken'', JStr ''s1'')]),
         (''user'', JObj [(''id'', JStr ''u1'')])]])])" "fragments example_fragments None"
        "''s1''" "()" "JObj [(''getSessionAndUser'', JArr [JObj
        [(''session'', JObj [(''sessionToken'', JStr ''s1'')]),
         (''user'', JObj [(''id'', JStr ''u1'')])]])]" "()"]
    getSessionAndUser_result[of "answering (JObj [(''getSessionAndUser'', JArr [JObj
          [(''session'', JObj [(''sessionToken'', JStr ''s1'')]), (''user'', JNull)]])])"
        "fragments example_fragments None" "''s1''" "()" "JObj [(''getSessionAndUser'',
          JArr [JObj [(''session'', JObj [(''sessionToken'', JStr ''s1'')]),
            (''user'', JNull)]])]" "()"]
    getSessionAndUser_result[of "answering (JObj [(''getSessionAndUser'', JArr [])])"
        "fragments example_fragments None" "''s1''" "()"
        "JObj [(''getSessionAndUser'', JArr [])]" "()"]
  by (simp add: answering_def fragments_def)

subsection \<open>unlinkAccount\<close>

text \<open>
  Claim C8. unlinkAccount makes one request, the mutation \<open>DeleteAccount\<close> filtered by
  providerAccountId and provider, and returns the first element of the answer's
  \<open>account\<close> list as it is. When the answer has no such element (the answer is null, or
  its \<open>account\<close> is missing, null or empty) the result is undefined, not null, and
  nothing is thrown.
\<close>

theorem unlinkAccount_result:
  assumes "run \<lparr>operation = DeleteAccount, interpolated = [interpolate (frags Account)],
                 variables = [(''providerAccountId'', JStr providerAccountId),
                              (''provider'', JStr provider)]\<rparr> w = (Inr result, w')"
  shows "unlinkAccount run frags provider providerAccountId \<lparr>world = w, calls = []\<rparr> =
           (Inr (at0_opt (get_opt result ''account'')),
            \<lparr>world = w', calls = [\<lparr>operation = DeleteAccount,
                 interpolated = [interpolate (frags Account)],
                 variables = [(''providerAccountId'', JStr providerAccountId),
                              (''provider'', JStr provider)]\<rparr>]\<rparr>)
         \<and> (result = JNull \<or> get_opt result ''account'' = JUndefined
              \<or> get_opt result ''account'' = JNull \<or> get_opt result ''account'' = JArr []
            \<longrightarrow> at0_opt (get_opt result ''account'') = JUndefined)"
  using assms by (auto simp add: unlinkAccount_def async_defs)

theorem unlinkAccount_result_witness:
  "unlinkAccount (answering (JObj [(''account'', JArr [])])) (fragments example_fragments None)
     ''github'' ''999'' \<lparr>world = (), calls = []\<rparr>
   = (Inr JUndefined,
      \<lparr>world = (), calls = [\<lparr>operation = DeleteAccount,
         interpolated = [example_fragments Account],
         variables = [(''providerAccountId'', JStr ''999''), (''provider'', JStr ''github'')]\<rparr>]\<rparr>)
   \<and> fst (unlinkAccount (answering (JObj [(''account'', JArr [JObj [(''id'', JStr ''a1'')]])]))
       (fragments example_fragments None) ''github'' ''100'' \<lparr>world = (), calls = []\<rparr>)
     = Inr (JObj [(''id'', JStr ''a1'')])"
  using unlinkAccount_result[of "answering (JObj [(''account'', JArr [])])"
      "fragments example_fragments None" "''999''" "''github''" "()"
      "JObj [(''account'', JArr [])]" "()"]
    unlinkAccount_result[of "answering (JObj [(''account'', JArr [JObj [(''id'', JStr ''a1'')]])])"
      "fragments example_fragments None" "''100''" "''github''" "()"
      "JObj [(''account'', JArr [JObj [(''id'', JStr ''a1'')]])]" "()"]
  by (simp add: answering_def fragments_def)

subsection \<open>deleteUser\<close>

text \<open>
  Claim C1. deleteUser first sends the query for the user with the ids of its accounts
  and the tokens of its sessions. When the answer holds no user it returns null after
  that one request. Otherwise it sends the delete mutation for the user id; when that
  answer holds no deleted user it throws \<open>Error "Failed to delete user"\<close> after two
  requests. Otherwise, when the fetched user has no account and no session, it returns
  the deleted user after two requests; when it has an account or a session, it sends
  one more request, which carries the collected account ids and the collected session
  tokens, and then returns the deleted user.
\<close>

theorem deleteUser_algorithm:
  assumes fetch: "run (fetch_request frags userId) w = (Inr fetchResult, w')"
  shows "let user = at0_opt (get_opt fetchResult ''user'');
             deletedUser = at0_opt (get_opt deleteResult ''user'');
             accountIds = JArr (map (\<lambda>a. get_opt a ''id'') as);
             sessionTokens = JArr (map (\<lambda>x. get_opt x ''sessionToken'') ss);
             outcome = deleteUser run frags userId \<lparr>world = w, calls = []\<rparr>
         in (\<not> truthy user \<longrightarrow>
               outcome = (Inr JNull, \<lparr>world = w', calls = [fetch_request frags userId]\<rparr>))
          \<and> (truthy user \<and> run (delete_request frags userId) w' = (Inr deleteResult, w'') \<longrightarrow>
               (\<not> truthy deletedUser \<longrightarrow>
                  outcome = (Inl (Error ''Failed to delete user''),
                    \<lparr>world = w'',
                     calls = [fetch_request frags userId, delete_request frags userId]\<rparr>))
             \<and> (truthy deletedUser \<and> get_opt user ''accounts'' = JArr as
                  \<and> get_opt user ''sessions'' = JArr ss
                  \<and> (\<forall>x\<in>set (as @ ss). x \<noteq> JNull \<and> x \<noteq> JUndefined) \<longrightarrow>
                  (as = [] \<and> ss = [] \<longrightarrow>
                     outcome = (Inr deletedUser,
                       \<lparr>world = w'',
                        calls = [fetch_request frags userId, delete_request frags userId]\<rparr>))
                \<and> ((as \<noteq> [] \<or> ss \<noteq> [])
                     \<and> run (cleanup_request accountIds sessionTokens) w''
                         = (Inr cleanupResult, w''') \<longrightarrow>
                     outcome = (Inr deletedUser,
                       \<lparr>world = w''',
                        calls = [fetch_request frags userId, delete_request frags userId,
                                 cleanup_request accountIds sessionTokens]\<rparr>))))"
  using fetch
  by (auto simp add: deleteUser_def async_defs Let_def get_truthy has_links_arrays
      get_each_objects)

text \<open>
  Claim C9. When the third request of deleteUser is rejected by the transport,
  deleteUser throws that error and returns no user. The second request had been
  answered with the deleted user; nothing is sent after the failed third request, so
  the world is left as the delete and the failed cleanup left it.
\<close>

theorem deleteUser_cleanup_failure:
  assumes "run (fetch_request frags userId) w = (Inr fetchResult, w')"
    and "user = at0_opt (get_opt fetchResult ''user'')"
    and "truthy user"
    and "run (delete_request frags userId) w' = (Inr deleteResult, w'')"
    and "truthy (at0_opt (get_opt deleteResult ''user''))"
    and "get_opt user ''accounts'' = JArr as"
    and "get_opt user ''sessions'' = JArr ss"
    and "as \<noteq> [] \<or> ss \<noteq> []"
    and "\<forall>x\<in>set (as @ ss). x \<noteq> JNull \<and> x \<noteq> JUndefined"
    and "accountIds = JArr (map (\<lambda>a. get_opt a ''id'') as)"
    and "sessionTokens = JArr (map (\<lambda>x. get_opt x ''sessionToken'') ss)"
    and "run (cleanup_request accountIds sessionTokens) w'' = (Inl e, w''')"
  shows "deleteUser run frags userId \<lparr>world = w, calls = []\<rparr> =
           (Inl (Rejected e),
            \<lparr>world = w''',
             calls = [fetch_request frags userId, delete_request frags userId,
                      cleanup_request accountIds sessionTokens]\<rparr>)"
  using assms
  by (auto simp add: deleteUser_def async_defs Let_def get_truthy has_links_arrays
      get_each_objects)

subsection \<open>The backend\<close>

lemma first_of_field [simp]: "at0_opt (lookup [(k, JArr (x # xs))] k) = x"
  by simp

lemma present_Wrapped_object [simp]:
  "present Wrapped (JObj fs) = JObj [(''user'', JArr [JObj fs])]"
  by (simp add: present_def)

lemma present_Wrapped_null [simp]: "present Wrapped JNull = JObj [(''user'', JArr [])]"
  by (simp add: present_def)

lemma present_Bare [simp]: "present Bare v = v"
  by (simp add: present_def)




lemma dgraph_fetch:
  "dgraph sh (fetch_request frags userId) w =
     (Inr (present sh (case filter (\<lambda>u. u_id u = userId) (users w) of
                         [] \<Rightarrow> JNull | u # _ \<Rightarrow> user_links_json w u)), w)"
  by (simp add: dgraph_def fetch_request_def)

lemma dgraph_delete:
  "dgraph sh (delete_request frags userId) w =
     (Inr (JObj [(''user'', JArr (map user_json (filter (\<lambda>u. u_id u = userId) (users w))))]),
      w\<lparr>users := filter (\<lambda>u. u_id u \<noteq> userId) (users w)\<rparr>)"
  by (simp add: dgraph_def delete_request_def)

lemma dgraph_cleanup:
  "dgraph sh (cleanup_request (JArr (map JStr ids)) (JArr (map JStr tokens))) w =
     (Inr (JObj
        [(''deleteAccount'', JObj [(''numUids'', JNum (int (length
            (filter (\<lambda>a. a_id a \<in> set ids) (accounts w)))))]),
         (''deleteSession'', JObj [(''numUids'', JNum (int (length
            (filter (\<lambda>x. s_token x \<in> set tokens) (sessions w)))))])]),
      w\<lparr>accounts := filter (\<lambda>a. a_id a \<notin> set ids) (accounts w),
        sessions := filter (\<lambda>x. s_token x \<notin> set tokens) (sessions w)\<rparr>)"
  by (simp add: dgraph_def cleanup_request_def image_iff)

text \<open>The algorithm of deleteUser and its failing cleanup, run on the example backend.\<close>

theorem deleteUser_algorithm_witness:
  "deleteUser (dgraph Wrapped) (fragments example_fragments None) ''u1''
     \<lparr>world = example_backend, calls = []\<rparr>
   = (Inr (JObj [(''id'', JStr ''u1''), (''name'', JStr ''Ann''),
                 (''email'', JStr ''a@example.org''), (''emailVerified'', JNull),
                 (''image'', JNull)]),
      \<lparr>world = \<lparr>users = [user2],
                accounts = [\<lparr>a_id = ''a2'', a_user = ''u2'', a_provider = ''github'',
                             a_providerAccountId = ''200''\<rparr>],
                sessions = [\<lparr>s_token = ''s2'', s_user = ''u2''\<rparr>],
                verificationTokens = [\<lparr>t_identifier = ''a@example.org'', t_token = ''t1'',
                                        t_expires = ''2030-01-01''\<rparr>]\<rparr>,
       calls = [fetch_request (fragments example_fragments None) ''u1'',
                delete_request (fragments example_fragments None) ''u1'',
                cleanup_request (JArr [JStr ''a1'', JStr ''a3'']) (JArr [JStr ''s1''])]\<rparr>)
   \<and> deleteUser (dgraph Wrapped) (fragments example_fragments None) ''u9''
       \<lparr>world = example_backend, calls = []\<rparr>
     = (Inr JNull, \<lparr>world = example_backend,
                    calls = [fetch_request (fragments example_fragments None) ''u9'']\<rparr>)"
proof -
  let ?F = "fragments example_fragments None"
  let ?as = "[JObj [(''id'', JStr ''a1'')], JObj [(''id'', JStr ''a3'')]]"
  let ?ss = "[JObj [(''sessionToken'', JStr ''s1'')]]"
  let ?u1 = "[(''id'', JStr ''u1''), (''name'', JStr ''Ann''),
              (''email'', JStr ''a@example.org''), (''emailVerified'', JNull),
              (''image'', JNull)]"
  let ?fr = "JObj [(''user'', JArr [JObj (?u1 @ [(''accounts'', JArr ?as),
               (''sessions'', JArr ?ss)])])]"
  let ?dr = "JObj [(''user'', JArr [JObj ?u1])]"
  let ?w2 = "example_backend\<lparr>users := [user2]\<rparr>"
  let ?cr = "JObj [(''deleteAccount'', JObj [(''numUids'', JNum 2)]),
                   (''deleteSession'', JObj [(''numUids'', JNum 1)])]"
  let ?w3 = "?w2\<lparr>accounts := [\<lparr>a_id = ''a2'', a_user = ''u2'', a_provider = ''github'',
                                  a_providerAccountId = ''200''\<rparr>],
                 sessions := [\<lparr>s_token = ''s2'', s_user = ''u2''\<rparr>]\<rparr>"
  have f: "dgraph Wrapped (fetch_request ?F ''u1'') example_backend
             = (Inr ?fr, example_backend)"
    by (simp add: dgraph_fetch example_backend_def user_links_json_def user_fields_def
        linked_accounts_def linked_sessions_def user1_def user2_def)
  have d: "dgraph Wrapped (delete_request ?F ''u1'') example_backend = (Inr ?dr, ?w2)"
    by (simp add: dgraph_delete example_backend_def user_json_def user_fields_def
        user1_def user2_def)
  have c: "dgraph Wrapped (cleanup_request (JArr (map (\<lambda>a. get_opt a ''id'') ?as))
             (JArr (map (\<lambda>x. get_opt x ''sessionToken'') ?ss))) ?w2 = (Inr ?cr, ?w3)"
    using dgraph_cleanup[of Wrapped "[''a1'', ''a3'']" "[''s1'']" ?w2]
    by (simp add: example_backend_def)
  have f9: "dgraph Wrapped (fetch_request ?F ''u9'') example_backend
              = (Inr (JObj [(''user'', JArr [])]), example_backend)"
    by (simp add: dgraph_fetch example_backend_def user1_def user2_def)
  from deleteUser_algorithm[where run = "dgraph Wrapped" and frags = ?F and userId = "''u1''"
      and w = example_backend and fetchResult = ?fr and w' = example_backend
      and deleteResult = ?dr and as = ?as and ss = ?ss and w'' = ?w2
      and cleanupResult = ?cr and w''' = ?w3, OF f] d c
  have one: "deleteUser (dgraph Wrapped) ?F ''u1'' \<lparr>world = example_backend, calls = []\<rparr>
    = (Inr (JObj ?u1),
       \<lparr>world = ?w3, calls = [fetch_request ?F ''u1'', delete_request ?F ''u1'',
          cleanup_request (JArr [JStr ''a1'', JStr ''a3'']) (JArr [JStr ''s1''])]\<rparr>)"
    by (simp add: Let_def)
  from deleteUser_algorithm[where run = "dgraph Wrapped" and frags = ?F and userId = "''u9''"
      and w = example_backend and fetchResult = "JObj [(''user'', JArr [])]"
      and w' = example_backend, OF f9]
  have two: "deleteUser (dgraph Wrapped) ?F ''u9'' \<lparr>world = example_backend, calls = []\<rparr>
    = (Inr JNull, \<lparr>world = example_backend, calls = [fetch_request ?F ''u9'']\<rparr>)"
    by (simp add: Let_def)
  show ?thesis
    using one two by (simp add: example_backend_def)
qed

theorem deleteUser_cleanup_failure_witness:
  "deleteUser (dgraph_cleanup_fails Wrapped) (fragments example_fragments None) ''u1''
     \<lparr>world = example_backend, calls = []\<rparr>
   = (Inl (Rejected ''network error''),
      \<lparr>world = example_backend\<lparr>users := [user2]\<rparr>,
       calls = [fetch_request (fragments example_fragments None) ''u1'',
                delete_request (fragments example_fragments None) ''u1'',
                cleanup_request (JArr [JStr ''a1'', JStr ''a3'']) (JArr [JStr ''s1''])]\<rparr>)
   \<and> linked_accounts (example_backend\<lparr>users := [user2]\<rparr>) ''u1''
     = [\<lparr>a_id = ''a1'', a_user = ''u1'', a_provider = ''github'', a_providerAccountId = ''100''\<rparr>,
        \<lparr>a_id = ''a3'', a_user = ''u1'', a_provider = ''google'', a_providerAccountId = ''100''\<rparr>]"
proof -
  let ?F = "fragments example_fragments None"
  let ?as = "[JObj [(''id'', JStr ''a1'')], JObj [(''id'', JStr ''a3'')]]"
  let ?ss = "[JObj [(''sessionToken'', JStr ''s1'')]]"
  let ?u1 = "[(''id'', JStr ''u1''), (''name'', JStr ''Ann''),
              (''email'', JStr ''a@example.org''), (''emailVerified'', JNull),
              (''image'', JNull)]"
  let ?user = "JObj (?u1 @ [(''accounts'', JArr ?as), (''sessions'', JArr ?ss)])"
  let ?fr = "JObj [(''user'', JArr [?user])]"
  let ?dr = "JObj [(''user'', JArr [JObj ?u1])]"
  let ?w2 = "example_backend\<lparr>users := [user2]\<rparr>"
  have f: "dgraph_cleanup_fails Wrapped (fetch_request ?F ''u1'') example_backend
             = (Inr ?fr, example_backend)"
    by (simp add: dgraph_cleanup_fails_def dgraph_def example_backend_def user_links_json_def
        user_fields_def linked_accounts_def linked_sessions_def fetch_request_def
        user1_def user2_def)
  have u: "?user = at0_opt (get_opt ?fr ''user'')"
    by simp
  have tu: "truthy ?user"
    by simp
  have d: "dgraph_cleanup_fails Wrapped (delete_request ?F ''u1'') example_backend
             = (Inr ?dr, ?w2)"
    by (simp add: dgraph_cleanup_fails_def dgraph_def example_backend_def user_json_def
        user_fields_def delete_request_def user1_def user2_def)
  have td: "truthy (at0_opt (get_opt ?dr ''user''))"
    by simp
  have a: "get_opt ?user ''accounts'' = JArr ?as"
    by simp
  have s: "get_opt ?user ''sessions'' = JArr ?ss"
    by simp
  have ne: "?as \<noteq> [] \<or> ?ss \<noteq> []"
    by simp
  have objs: "\<forall>x\<in>set (?as @ ?ss). x \<noteq> JNull \<and> x \<noteq> JUndefined"
    by simp
  have ai: "JArr [JStr ''a1'', JStr ''a3''] = JArr (map (\<lambda>a. get_opt a ''id'') ?as)"
    by simp
  have si: "JArr [JStr ''s1''] = JArr (map (\<lambda>x. get_opt x ''sessionToken'') ?ss)"
    by simp
  have c: "dgraph_cleanup_fails Wrapped
             (cleanup_request (JArr [JStr ''a1'', JStr ''a3'']) (JArr [JStr ''s1''])) ?w2
           = (Inl ''network error'', ?w2)"
    by (simp add: dgraph_cleanup_fails_def cleanup_request_def)
  have l: "linked_accounts ?w2 ''u1''
     = [\<lparr>a_id = ''a1'', a_user = ''u1'', a_provider = ''github'', a_providerAccountId = ''100''\<rparr>,
        \<lparr>a_id = ''a3'', a_user = ''u1'', a_provider = ''google'', a_providerAccountId = ''100''\<rparr>]"
    by (simp add: linked_accounts_def example_backend_def)
  show ?thesis
    using deleteUser_cleanup_failure[where run = "dgraph_cleanup_fails Wrapped",
        OF f u tu d td a s ne objs ai si c] l
    by simp
qed








subsection \<open>useVerificationToken\<close>

text \<open>
  Claim C3. On the backend, for every verification token that is present,
  useVerificationToken with its identifier and token returns a token record of that
  pair and leaves no record of that pair behind; a second call with the same pair
  returns null.
\<close>

theorem useVerificationToken_single_use:
  assumes present: "t \<in> set (verificationTokens w)"
    and ident: "lookup params ''identifier'' = JStr (t_identifier t)"
    and tok: "lookup params ''token'' = JStr (t_token t)"
  shows "let (first, s1) = useVerificationToken (dgraph sh) frags params
                             \<lparr>world = w, calls = []\<rparr>;
             (second, s2) = useVerificationToken (dgraph sh) frags params s1
         in (\<exists>t1\<in>set (verificationTokens w). t_identifier t1 = t_identifier t
                \<and> t_token t1 = t_token t \<and> first = Inr (token_json t1))
          \<and> (\<forall>t'\<in>set (verificationTokens (world s1)).
                \<not> (t_identifier t' = t_identifier t \<and> t_token t' = t_token t))
          \<and> second = Inr JNull"
proof -
  let ?match = "token_matches params"
  have m: "?match x \<longleftrightarrow> t_identifier x = t_identifier t \<and> t_token x = t_token t" for x
    by (auto simp add: token_matches_def ident tok)
  have "filter ?match (verificationTokens w) \<noteq> []"
    using present m by (auto simp add: filter_empty_conv)
  then obtain t1 rest where found: "filter ?match (verificationTokens w) = t1 # rest"
    by (cases "filter ?match (verificationTokens w)") auto
  then have "t1 \<in> set (filter ?match (verificationTokens w))"
    by simp
  then have t1: "t1 \<in> set (verificationTokens w)" "?match t1"
    by simp_all
  have none: "filter ?match (filter (\<lambda>x. \<not> ?match x) (verificationTokens w)) = []"
    by (simp add: filter_empty_conv)
  have tr: "truthy (token_json t1)"
    by (simp add: token_json_def)
  show ?thesis
    using t1 m tr
    by (auto simp add: useVerificationToken_def c_run_def await_def resolve_def dgraph_def
        found none or_null_def)
qed

theorem useVerificationToken_single_use_witness:
  "\<lparr>t_identifier = ''a@example.org'', t_token = ''t1'', t_expires = ''2030-01-01''\<rparr>
     \<in> set (verificationTokens example_backend)
   \<and> (let params = [(''identifier'', JStr ''a@example.org''), (''token'', JStr ''t1'')];
          (first, s1) = useVerificationToken (dgraph Bare) (fragments example_fragments None)
                          params \<lparr>world = example_backend, calls = []\<rparr>;
          (second, s2) = useVerificationToken (dgraph Bare) (fragments example_fragments None)
                           params s1
       in first = Inr (JObj [(''identifier'', JStr ''a@example.org''), (''token'', JStr ''t1''),
                             (''expires'', JStr ''2030-01-01'')])
        \<and> verificationTokens (world s1) = []
        \<and> second = Inr JNull)"
proof -
  let ?t = "\<lparr>t_identifier = ''a@example.org'', t_token = ''t1'', t_expires = ''2030-01-01''\<rparr>"
  let ?params = "[(''identifier'', JStr ''a@example.org''), (''token'', JStr ''t1'')]"
  have h1: "?t \<in> set (verificationTokens example_backend)"
    by (simp add: example_backend_def)
  have h2: "lookup ?params ''identifier'' = JStr (t_identifier ?t)"
    by simp
  have h3: "lookup ?params ''token'' = JStr (t_token ?t)"
    by simp
  show ?thesis
    using useVerificationToken_single_use[OF h1 h2 h3, of Bare
        "fragments example_fragments None"] h1
    by (simp add: useVerificationToken_def async_defs dgraph_def example_backend_def
        token_matches_def token_json_def or_null_def Let_def)
qed

subsection \<open>What reads and writes make of an answer\<close>

text \<open>
  Each lemma gives the result of a method for an arbitrary answer of the transport.
  The reads turn a missing record into null. The writes throw when the answer holds no
  first record, with one exception: createUser tests the list \<open>result.user\<close>, not its
  first element.
\<close>

lemma createUser_result:
  assumes "run \<lparr>operation = AddUser, interpolated = [interpolate (frags User)],
                 variables = [(''input'', JArr [JObj (without [''id''] user)])]\<rparr> w = (Inr result, w')"
  shows "createUser run frags user \<lparr>world = w, calls = []\<rparr> =
           (if \<not> truthy result \<or> \<not> truthy (get_opt result ''user'')
            then Inl (Error ''Failed to create user'')
            else Inr (at0_opt (get_opt result ''user'')),
            \<lparr>world = w', calls = [\<lparr>operation = AddUser, interpolated = [interpolate (frags User)],
                 variables = [(''input'', JArr [JObj (without [''id''] user)])]\<rparr>]\<rparr>)"
  using assms by (simp add: createUser_def async_defs Let_def get_truthy at0_truthy)

lemma without_id: "lookup (without [''id''] user) ''id'' = JUndefined"
  by (induction user) (auto simp add: without_def)

lemma getUser_result:
  assumes "run \<lparr>operation = GetUser, interpolated = [interpolate (frags User)],
                 variables = [(''id'', JStr i)]\<rparr> w = (Inr result, w')"
  shows "fst (getUser run frags i \<lparr>world = w, calls = []\<rparr>) = Inr result"
  using assms by (simp add: getUser_def async_defs)

lemma getUserByEmail_result:
  assumes "run \<lparr>operation = QueryUser, interpolated = [interpolate (frags User)],
                 variables = [(''email'', JStr email)]\<rparr> w = (Inr result, w')"
  shows "fst (getUserByEmail run frags email \<lparr>world = w, calls = []\<rparr>) =
           Inr (if truthy (at0_opt (get_opt result ''user''))
                then at0_opt (get_opt result ''user'') else JNull)"
  using assms by (simp add: getUserByEmail_def async_defs or_null_def)

lemma getUserByAccount_result:
  assumes "run \<lparr>operation = QueryAccount, interpolated = [interpolate (frags User)],
                 variables = [(''providerAccountId'', JStr providerAccountId),
                              (''provider'', JStr provider)]\<rparr> w = (Inr result, w')"
  shows "fst (getUserByAccount run frags provider providerAccountId \<lparr>world = w, calls = []\<rparr>) =
           Inr (if truthy (get_opt (at0_opt result) ''user'')
                then get_opt (at0_opt result) ''user'' else JNull)"
  using assms by (simp add: getUserByAccount_def async_defs or_null_def)

lemma truthy_get_opt: "truthy (get_opt v k) \<Longrightarrow> truthy v"
  by (cases v) auto

lemma truthy_at0_opt: "truthy (at0_opt v) \<Longrightarrow> truthy v"
  by (cases v) auto

lemma first_present:
  "truthy (at0_opt (get_opt result k)) \<Longrightarrow>
   get result k = Inr (get_opt result k) \<and> at0 (get_opt result k) = Inr (at0_opt (get_opt result k))"
  by (auto dest!: truthy_at0_opt simp add: at0_truthy get_truthy dest: truthy_get_opt)

lemma updateUser_result:
  assumes "run \<lparr>operation = UpdateUser, interpolated = [interpolate (frags User)],
                 variables = [(''id'', lookup user ''id''),
                              (''input'', JObj (without [''id''] user))]\<rparr> w = (Inr result, w')"
  shows "fst (updateUser run frags user \<lparr>world = w, calls = []\<rparr>) =
           (if truthy (at0_opt (get_opt result ''user''))
            then Inr (at0_opt (get_opt result ''user''))
            else Inl (Error ''Failed to update user''))"
  using assms by (simp add: updateUser_def async_defs Let_def first_present)

lemma linkAccount_result:
  assumes "run \<lparr>operation = AddAccount, interpolated = [interpolate (frags Account)],
                 variables = [(''input'', JArr [JObj (with_property
                    (without [''id'', ''userId''] account) ''user''
                    (JObj [(''id'', lookup account ''userId'')]))])]\<rparr> w = (Inr result, w')"
  shows "fst (linkAccount run frags account \<lparr>world = w, calls = []\<rparr>) =
           (if truthy (at0_opt (get_opt result ''account''))
            then Inr (at0_opt (get_opt result ''account''))
            else Inl (Error ''Failed to link account''))"
  using assms by (simp add: linkAccount_def async_defs Let_def first_present)

lemma createSession_result:
  assumes "lookup session ''userId'' \<noteq> JUndefined"
    and "run \<lparr>operation = AddSession, interpolated = [interpolate (frags Session)],
               variables = [(''input'', JArr [JObj [(''sessionToken'', lookup session ''sessionToken''),
                  (''expires'', lookup session ''expires''),
                  (''user'', JObj [(''id'', lookup session ''userId'')])]])]\<rparr> w = (Inr result, w')"
  shows "fst (createSession run frags session \<lparr>world = w, calls = []\<rparr>) =
           (if truthy (at0_opt (get_opt result ''session''))
            then Inr (at0_opt (get_opt result ''session''))
            else Inl (Error ''Failed to create session''))"
  using assms by (simp add: createSession_def async_defs Let_def first_present)

lemma createVerificationToken_result:
  assumes "run \<lparr>operation = AddVerificationToken, interpolated = [],
                 variables = [(''input'', JArr [JObj input])]\<rparr> w = (Inr result, w')"
  shows "fst (createVerificationToken run frags input \<lparr>world = w, calls = []\<rparr>) =
           (if truthy (at0_opt (get_opt result ''verificationToken''))
            then Inr (at0_opt (get_opt result ''verificationToken''))
            else Inl (Error ''Failed to create verification token''))"
  using assms by (simp add: createVerificationToken_def async_defs Let_def)

text \<open>
  Claim C5. createUser removes \<open>id\<close> from the object it sends and returns the first
  element of the answer's \<open>user\<close> list. It does not throw whenever no record was
  created: when the answer's list is empty, the list itself is truthy, the guard
  \<open>!result || !result.user\<close> lets it pass, and createUser returns undefined. The
  theorem runs createUser on that answer.
\<close>

theorem createUser_empty_list:
  "createUser (answering (JObj [(''user'', JArr [])])) (fragments example_fragments None)
     [(''id'', JStr ''x1''), (''email'', JStr ''c@example.org'')] \<lparr>world = (), calls = []\<rparr> =
   (Inr JUndefined,
    \<lparr>world = (), calls = [\<lparr>operation = AddUser, interpolated = [example_fragments User],
       variables = [(''input'', JArr [JObj [(''email'', JStr ''c@example.org'')]])]\<rparr>]\<rparr>)"
  by (simp add: createUser_def async_defs answering_def fragments_def without_def)

text \<open>
  Claim C6. The reads return null for a missing record, and updateUser, linkAccount,
  createSession, createVerificationToken and the delete step of deleteUser throw when
  the answer holds no first record (lemmas above). createUser does not follow the convention: on the answer \<open>{user: []}\<close>, on
  which updateUser throws, createUser returns undefined.
\<close>

theorem createUser_breaks_write_convention:
  "fst (updateUser (answering (JObj [(''user'', JArr [])])) (fragments example_fragments None)
          [(''id'', JStr ''u1''), (''name'', JStr ''Ann'')] \<lparr>world = (), calls = []\<rparr>)
     = Inl (Error ''Failed to update user'')
   \<and> fst (createUser (answering (JObj [(''user'', JArr [])])) (fragments example_fragments None)
          [(''name'', JStr ''Ann'')] \<lparr>world = (), calls = []\<rparr>)
     = Inr JUndefined"
  by (simp add: createUser_def updateUser_def async_defs answering_def fragments_def without_def)

subsection \<open>Fragments\<close>

lemma carried_createUser: "list_all (carried frags) (requests_of (createUser run frags user) w)"
  by (auto simp add: requests_of_def createUser_def async_defs carried_def Let_def
      split: prod.splits sum.splits)

lemma carried_getUser: "list_all (carried frags) (requests_of (getUser run frags i) w)"
  by (auto simp add: requests_of_def getUser_def async_defs carried_def Let_def
      split: prod.splits sum.splits)

lemma carried_getUserByEmail:
  "list_all (carried frags) (requests_of (getUserByEmail run frags email) w)"
  by (auto simp add: requests_of_def getUserByEmail_def async_defs carried_def Let_def
      split: prod.splits sum.splits)

lemma carried_getUserByAccount:
  "list_all (carried frags) (requests_of (getUserByAccount run frags p q) w)"
  by (auto simp add: requests_of_def getUserByAccount_def async_defs carried_def Let_def
      split: prod.splits sum.splits)

lemma carried_updateUser: "list_all (carried frags) (requests_of (updateUser run frags user) w)"
  by (auto simp add: requests_of_def updateUser_def async_defs carried_def Let_def
      split: prod.splits sum.splits)

lemma carried_deleteUser: "list_all (carried frags) (requests_of (deleteUser run frags i) w)"
  by (auto simp add: requests_of_def deleteUser_def async_defs carried_def Let_def
      fetch_request_def delete_request_def cleanup_request_def
      split: prod.splits sum.splits)

lemma carried_linkAccount:
  "list_all (carried frags) (requests_of (linkAccount run frags account) w)"
  by (auto simp add: requests_of_def linkAccount_def async_defs carried_def Let_def
      split: prod.splits sum.splits)

lemma carried_unlinkAccount:
  "list_all (carried frags) (requests_of (unlinkAccount run frags p q) w)"
  by (auto simp add: requests_of_def unlinkAccount_def async_defs carried_def Let_def
      split: prod.splits sum.splits)

lemma carried_getSessionAndUser:
  "list_all (carried frags) (requests_of (getSessionAndUser run frags t) w)"
  by (auto simp add: requests_of_def getSessionAndUser_def async_defs carried_def Let_def
      split: prod.splits sum.splits)

lemma carried_createSession:
  "list_all (carried frags) (requests_of (createSession run frags session) w)"
  by (auto simp add: requests_of_def createSession_def async_defs carried_def Let_def
      split: prod.splits sum.splits)

lemma carried_deleteSession:
  "list_all (carried frags) (requests_of (deleteSession run frags t) w)"
  by (auto simp add: requests_of_def deleteSession_def async_defs carried_def Let_def
      split: prod.splits sum.splits)

lemma carried_createVerificationToken:
  "list_all (carried frags) (requests_of (createVerificationToken run frags input) w)"
  by (auto simp add: requests_of_def createVerificationToken_def async_defs carried_def Let_def
      split: prod.splits sum.splits)

lemma carried_useVerificationToken:
  "list_all (carried frags) (requests_of (useVerificationToken run frags params) w)"
  by (auto simp add: requests_of_def useVerificationToken_def async_defs carried_def Let_def
      split: prod.splits sum.splits)

lemmas carried_methods =
  carried_createUser carried_getUser carried_getUserByEmail carried_getUserByAccount
  carried_updateUser carried_deleteUser carried_linkAccount carried_unlinkAccount
  carried_getSessionAndUser carried_createSession carried_deleteSession
  carried_createVerificationToken carried_useVerificationToken

lemma fragments_present:
  "distinct (map fst fs) \<Longrightarrow> (k, v) \<in> set fs \<Longrightarrow>
   fragments d (Some \<lparr>fragments_option = Some fs\<rparr>) k = v"
  by (simp add: fragments_def)

lemma fragments_absent:
  assumes "k \<notin> fst ` set fs"
  shows "fragments d (Some \<lparr>fragments_option = Some fs\<rparr>) k = Text (d k)"
proof -
  have "map_of fs k = None"
    using assms by (simp add: map_of_eq_None_iff)
  then show ?thesis
    by (simp add: fragments_def)
qed

text \<open>
  Claim C10, as the claim states it, fails when the caller passes a key whose value is
  undefined: the spread copies the property, the default is lost, and the text
  interpolated into the documents is \<open>undefined\<close>.
\<close>

theorem fragments_undefined_override:
  "interpolate (fragments example_fragments
      (Some \<lparr>fragments_option = Some [(User, Undefined)]\<rparr>) User)
     \<noteq> example_fragments User"
  by (simp add: fragments_def example_fragments_def)

text \<open>
  Claim C10, amended. For every entity key, the resolved fragment is the value that
  \<open>options.fragments\<close> holds for the key whenever the key is present there, and the
  default fragment when the key is absent or when no options or no fragments are given.
  Adding an override for one key leaves the fragment resolved for every other key
  unchanged. Every request of every method of the adapter interpolates the resolved
  fragments of the entities that its document names.
\<close>

theorem fragments_resolution:
  "(distinct (map fst fs) \<and> (k, v) \<in> set fs \<longrightarrow>
      fragments d (Some \<lparr>fragments_option = Some fs\<rparr>) k = v)
   \<and> (k \<notin> fst ` set fs \<longrightarrow>
         fragments d (Some \<lparr>fragments_option = Some fs\<rparr>) k = Text (d k))
   \<and> fragments d (Some \<lparr>fragments_option = None\<rparr>) k = Text (d k)
   \<and> fragments d None k = Text (d k)
   \<and> (k' \<noteq> k \<longrightarrow>
         fragments d (Some \<lparr>fragments_option = Some ((k, v') # fs)\<rparr>) k'
           = fragments d (Some \<lparr>fragments_option = Some fs\<rparr>) k')
   \<and> (let a = DgraphAdapter run d opts; frags = fragments d opts
       in list_all (carried frags) (requests_of (adapter_createUser a user) w)
        \<and> list_all (carried frags) (requests_of (adapter_getUser a userId) w)
        \<and> list_all (carried frags) (requests_of (adapter_getUserByEmail a email) w)
        \<and> list_all (carried frags)
            (requests_of (adapter_getUserByAccount a provider providerAccountId) w)
        \<and> list_all (carried frags) (requests_of (adapter_updateUser a user) w)
        \<and> list_all (carried frags) (requests_of (adapter_deleteUser a userId) w)
        \<and> list_all (carried frags) (requests_of (adapter_linkAccount a account) w)
        \<and> list_all (carried frags)
            (requests_of (adapter_unlinkAccount a provider providerAccountId) w)
        \<and> list_all (carried frags) (requests_of (adapter_getSessionAndUser a sessionToken) w)
        \<and> list_all (carried frags) (requests_of (adapter_createSession a session) w)
        \<and> list_all (carried frags) (requests_of (adapter_deleteSession a sessionToken) w)
        \<and> list_all (carried frags) (requests_of (adapter_createVerificationToken a token) w)
        \<and> list_all (carried frags) (requests_of (adapter_useVerificationToken a params) w))"
  by (simp add: fragments_present fragments_absent DgraphAdapter_def Let_def carried_methods)
    (simp add: fragments_def)

theorem fragments_resolution_witness:
  "fragments example_fragments
     (Some \<lparr>fragments_option = Some [(Session, Text ''fragment SessionFragment on Session { id }'')]\<rparr>)
     Session = Text ''fragment SessionFragment on Session { id }''
   \<and> fragments example_fragments
     (Some \<lparr>fragments_option = Some [(Session, Text ''fragment SessionFragment on Session { id }'')]\<rparr>)
     User = Text (example_fragments User)
   \<and> requests_of (adapter_getSessionAndUser
        (DgraphAdapter (answering JNull) example_fragments
          (Some \<lparr>fragments_option =
             Some [(Session, Text ''fragment SessionFragment on Session { id }'')]\<rparr>)) ''s1'') ()
     = [\<lparr>operation = GetSessionAndUser,
         interpolated = [''fragment SessionFragment on Session { id }'', example_fragments User],
         variables = [(''sessionToken'', JStr ''s1'')]\<rparr>]"
  using fragments_resolution[of "[(Session, Text ''fragment SessionFragment on Session { id }'')]"
      Session "Text ''fragment SessionFragment on Session { id }''" example_fragments]
    fragments_resolution[of "[(Session, Text ''fragment SessionFragment on Session { id }'')]"
      User _ example_fragments]
  by (simp add: DgraphAdapter_def requests_of_def getSessionAndUser_def async_defs answering_def
      fragments_def Let_def)

end
